theory Spec2Isabelle
  imports Main "HOL-Library.AList"
begin

section \<open>Python values used by the test harness (web/conftest.py)\<close>

text \<open>
  A Python \<open>str\<close> is modelled as a \<open>string\<close> whose characters stand for the code
  points below 256. A \<open>dict\<close> with string keys is an association list in insertion order
  with pairwise different keys; \<open>AList.update\<close> is Python's \<open>d[k] = v\<close> (an existing key
  keeps its place, a new key goes to the end).
\<close>

type_synonym 'v dict = "(string \<times> 'v) list"

datatype py_exception = TypeError | IndexError | KeyError | OverflowError | OtherError string

definition quote :: char where
  "quote = CHR 0x27"

definition newline :: char where
  "newline = CHR 0x0A"

text \<open>\<open>str.lower()\<close> on one character: A-Z and the upper-case letters of Latin-1.\<close>

definition lower_char :: "char \<Rightarrow> char" where
  "lower_char c =
     (let n = (of_char c :: nat)
      in if (65 \<le> n \<and> n \<le> 90) \<or> (192 \<le> n \<and> n \<le> 222 \<and> n \<noteq> 215)
         then char_of (n + 32) else c)"

definition lower :: "string \<Rightarrow> string" where
  "lower s = map lower_char s"

text \<open>\<open>str.isspace()\<close> on one character, and \<open>str.rstrip()\<close> with no argument.\<close>

definition isspace :: "char \<Rightarrow> bool" where
  "isspace c =
     (let n = (of_char c :: nat)
      in (9 \<le> n \<and> n \<le> 13) \<or> (28 \<le> n \<and> n \<le> 32) \<or> n = 133 \<or> n = 160)"

definition rstrip :: "string \<Rightarrow> string" where
  "rstrip s = rev (dropWhile isspace (rev s))"

text \<open>
  \<open>s.split(" ", 1)\<close>: the string is cut once, at its first space; without a space it is
  the only part.
\<close>

definition split1 :: "string \<Rightarrow> string list" where
  "split1 s =
     (if CHR '' '' \<in> set s
      then [takeWhile (\<lambda>c. c \<noteq> CHR '' '') s, tl (dropWhile (\<lambda>c. c \<noteq> CHR '' '') s)]
      else [s])"

text \<open>
  Equality of two dicts as Python decides it: the same number of items, and every item of
  the first found under its key in the second.
\<close>

definition dict_eq :: "'v dict \<Rightarrow> 'v dict \<Rightarrow> bool" where
  "dict_eq a b = (length a = length b \<and> list_all (\<lambda>(k, v). map_of b k = Some v) a)"

section \<open>The query-count assertion (conftest.py, assert\_num\_queries)\<close>

text \<open>
  A frame of \<open>inspect.stack()\<close>. \<open>code_context\<close> is \<open>None\<close> when the interpreter finds no
  source for the frame, otherwise the list of source lines around the call.
\<close>

record stack_frame =
  filename :: string
  lineno :: nat
  code_context :: "string list option"

text \<open>
  \<open>TracingDebugWrapper.get_userland_stack_frame\<close>: the first frame after the two innermost
  ones that has source lines and does not lie under the Python library path.
\<close>

definition has_context :: "stack_frame \<Rightarrow> bool" where
  "has_context f = (case code_context f of None \<Rightarrow> False | Some ls \<Rightarrow> ls \<noteq> [])"

definition startswith :: "string \<Rightarrow> string \<Rightarrow> bool" where
  "startswith s p = (take (length p) s = p)"

definition get_userland_stack_frame :: "string \<Rightarrow> stack_frame list \<Rightarrow> stack_frame option" where
  "get_userland_stack_frame python_lib_path stack =
     List.find (\<lambda>f. has_context f \<and> \<not> startswith (filename f) python_lib_path) (drop 2 stack)"

text \<open>
  An entry of \<open>context.captured_queries\<close> as \<open>capture_stack\<close> leaves it: the statement and
  the two keys \<open>stack\<close> and \<open>userland_stack_frame\<close> it adds.
\<close>

record query =
  sql :: string
  stack :: "stack_frame list"
  userland_stack_frame :: "stack_frame option"

definition capture_stack :: "string \<Rightarrow> string \<Rightarrow> stack_frame list \<Rightarrow> query" where
  "capture_stack python_lib_path statement st =
     \<lparr>sql = statement, stack = st,
      userland_stack_frame = get_userland_stack_frame python_lib_path st\<rparr>"

text \<open>Line 133: \<open>q['sql'].split(" ", 1)[0].lower()\<close>. The list of parts is never empty.\<close>

definition query_type :: "query \<Rightarrow> string" where
  "query_type q = (case split1 (sql q) of part # parts \<Rightarrow> lower part | [] \<Rightarrow> [])"

text \<open>Lines 131-135: the loop that counts the statements by type.\<close>

definition ignored_types :: "string list" where
  "ignored_types = [''savepoint'', ''release'', ''set'', ''show'']"

definition incr :: "int dict \<Rightarrow> string \<Rightarrow> int dict" where
  "incr query_counts k =
     AList.update k ((case map_of query_counts k of None \<Rightarrow> 0 | Some n \<Rightarrow> n) + 1) query_counts"

fun count_queries :: "int dict \<Rightarrow> query list \<Rightarrow> int dict" where
  "count_queries query_counts [] = query_counts"
| "count_queries query_counts (q # qs) =
     (if query_type q \<notin> set ignored_types
      then count_queries (incr query_counts (query_type q)) qs
      else count_queries query_counts qs)"

text \<open>
  Line 144: \<open>re.sub(r'\'.*?\'', "'<str>'", sql, flags=re.DOTALL)\<close>. Every shortest stretch
  from one quote to the next is replaced; a quote with no partner stays.
\<close>

function short_sql :: "string \<Rightarrow> string" where
  "short_sql [] = []"
| "short_sql (c # cs) =
     (if c = quote \<and> quote \<in> set cs
      then quote # ''<str>'' @ quote # short_sql (tl (dropWhile (\<lambda>d. d \<noteq> quote) cs))
      else c # short_sql cs)"
  by pat_completeness auto
termination
proof (relation "measure length")
  show "wf (measure length)" by simp
next
  fix c :: char and cs :: string
  have "length (tl (dropWhile (\<lambda>d. d \<noteq> quote) cs)) \<le> length cs"
    using length_dropWhile_le [of "\<lambda>d. d \<noteq> quote" cs] by simp
  then show "(tl (dropWhile (\<lambda>d. d \<noteq> quote) cs), c # cs) \<in> measure length"
    by simp
next
  fix c :: char and cs :: string
  show "(cs, c # cs) \<in> measure length" by simp
qed

text \<open>Decimal text of a line number, as \<open>%s\<close> prints an int.\<close>

fun digits :: "nat \<Rightarrow> string" where
  "digits n = (if n < 10 then [char_of (48 + n)] else digits (n div 10) @ [char_of (48 + n mod 10)])"

declare digits.simps [simp del]

text \<open>
  Line 143: one frame of the report. \<open>code_context[0]\<close> raises \<open>TypeError\<close> on \<open>None\<close> and
  \<open>IndexError\<close> on an empty list.
\<close>

definition frame_text :: "stack_frame \<Rightarrow> py_exception + string" where
  "frame_text f =
     (case code_context f of
        None \<Rightarrow> Inl TypeError
      | Some [] \<Rightarrow> Inl IndexError
      | Some (l # _) \<Rightarrow>
          Inr (filename f @ '':'' @ digits (lineno f) @ '':'' @ [newline] @ rstrip l @ [newline]))"

fun frames_text :: "stack_frame list \<Rightarrow> py_exception + string" where
  "frames_text [] = Inr []"
| "frames_text (f # fs) =
     (case frame_text f of
        Inl e \<Rightarrow> Inl e
      | Inr t \<Rightarrow> (case frames_text fs of Inl e \<Rightarrow> Inl e | Inr ts \<Rightarrow> Inr (t @ ts)))"

text \<open>Line 141: which frames are printed for one query.\<close>

definition stack_frames :: "int \<Rightarrow> query \<Rightarrow> stack_frame list" where
  "stack_frames verbose q =
     (if verbose > 1 then stack q
      else (case userland_stack_frame q of Some f \<Rightarrow> [f] | None \<Rightarrow> []))"

text \<open>Lines 140-145: the report of all captured queries.\<close>

fun queries_text :: "int \<Rightarrow> query list \<Rightarrow> py_exception + string" where
  "queries_text verbose [] = Inr []"
| "queries_text verbose (q # qs) =
     (case frames_text (stack_frames verbose q) of
        Inl e \<Rightarrow> Inl e
      | Inr ft \<Rightarrow>
          (case queries_text verbose qs of
             Inl e \<Rightarrow> Inl e
           | Inr rest \<Rightarrow> Inr (ft @ short_sql (sql q) @ [newline, newline] @ rest)))"

definition queries_header :: string where
  "queries_header =
     [newline, newline] @ ''Queries:'' @ [newline] @ ''========'' @ [newline, newline]"

definition verbosity_hint :: string where
  "verbosity_hint =
     '' (add -v option to show queries, or -v -v to show queries with full stack trace)''"

definition unexpected :: "(int dict \<Rightarrow> string) \<Rightarrow> int dict \<Rightarrow> int dict \<Rightarrow> string" where
  "unexpected fmt expected_counts query_counts =
     ''Unexpected queries: expected '' @ fmt expected_counts @ '', got '' @ fmt query_counts"

text \<open>
  What the \<open>with\<close> statement ends in: a pass, the failure that \<open>pytest.fail(msg)\<close>
  raises, or an exception (the block's own, or one raised while the message is built).
\<close>

datatype outcome = Passed | Failed string | Raised py_exception

text \<open>
  \<open>_assert_num_queries\<close>, lines 126-148. \<open>fmt\<close> is the text \<open>%s\<close> gives for a dict,
  \<open>verbose\<close> the value of \<open>pytestconfig.getoption('verbose')\<close>. A block is given by the
  statements captured on the connection while it ran and by the exception it raised, if
  any. When the block raises, the exception leaves the generator at \<open>yield\<close>: nothing
  after \<open>yield\<close> runs.
\<close>

definition assert_num_queries ::
  "(int dict \<Rightarrow> string) \<Rightarrow> int \<Rightarrow> int dict \<Rightarrow> query list \<times> py_exception option \<Rightarrow> outcome"
  where
  "assert_num_queries fmt verbose expected_counts block =
     (case block of
        (captured_queries, Some e) \<Rightarrow> Raised e
      | (captured_queries, None) \<Rightarrow>
          (let query_counts = count_queries [] captured_queries
           in if \<not> dict_eq expected_counts query_counts
              then (let msg = unexpected fmt expected_counts query_counts
                    in if verbose > 0
                       then (case queries_text verbose captured_queries of
                               Inl e \<Rightarrow> Raised e
                             | Inr t \<Rightarrow> Failed (msg @ queries_header @ t))
                       else Failed (msg @ verbosity_hint))
              else Passed))"

section \<open>The session-aware test client (conftest.py, client)\<close>

text \<open>
  The client's cookie jar is an \<open>http.cookies.SimpleCookie\<close>: a dict from cookie names to
  \<open>Morsel\<close> objects. \<open>self.cookies.get(session_key)\<close> hands out the object itself, not a
  copy, so the jar is modelled with an explicit store: \<open>cookies\<close> maps a name to the
  address of its Morsel, \<open>morsels\<close> gives the value each Morsel holds.
\<close>

type_synonym addr = nat

record client =
  cookies :: "string \<rightharpoonup> addr"
  morsels :: "addr \<Rightarrow> string"
  next_addr :: addr

definition cookie_value :: "client \<Rightarrow> string \<Rightarrow> string option" where
  "cookie_value self name = map_option (morsels self) (cookies self name)"

text \<open>
  \<open>self.cookies[name] = v\<close> for a \<open>str\<close> v (\<open>BaseCookie.__setitem__\<close>, then \<open>__set\<close>): the
  Morsel already stored under the name is updated in place (\<open>M = self.get(key, Morsel())\<close>,
  \<open>M.set(key, ...)\<close>); only a name not yet in the jar gets a new Morsel.
\<close>

definition set_cookie :: "string \<Rightarrow> string \<Rightarrow> client \<Rightarrow> client" where
  "set_cookie name v self =
     (case cookies self name of
        Some m \<Rightarrow> self\<lparr>morsels := (morsels self)(m := v)\<rparr>
      | None \<Rightarrow> self\<lparr>cookies := (cookies self)(name \<mapsto> next_addr self),
                      morsels := (morsels self)(next_addr self := v),
                      next_addr := Suc (next_addr self)\<rparr>)"

text \<open>\<open>self.cookies[name] = m\<close> for a Morsel m: the jar refers to that object.\<close>

definition put_morsel :: "string \<Rightarrow> addr \<Rightarrow> client \<Rightarrow> client" where
  "put_morsel name m self = self\<lparr>cookies := (cookies self)(name \<mapsto> m)\<rparr>"

text \<open>\<open>self.cookies.pop(name)\<close>: \<open>KeyError\<close> when the name is not in the jar.\<close>

definition pop_cookie :: "string \<Rightarrow> client \<Rightarrow> py_exception + client" where
  "pop_cookie name self =
     (case cookies self name of
        None \<Rightarrow> Inl KeyError
      | Some _ \<Rightarrow> Inr (self\<lparr>cookies := (cookies self)(name := None)\<rparr>))"

text \<open>
  \<open>Client.force_login\<close> belongs to the web framework. What matters here is its last step,
  \<open>self.cookies[settings.SESSION_COOKIE_NAME] = request.session.session_key\<close>;
  \<open>session\<close> stands for the key of the session the login has created.
\<close>

definition force_login :: "string \<Rightarrow> string \<Rightarrow> client \<Rightarrow> client" where
  "force_login session_key session self = set_cookie session_key session self"

text \<open>
  \<open>UserClient.request\<close>, lines 173-188. \<open>send\<close> is \<open>super().request(*args, **kwargs)\<close>: it
  returns a response or raises, and may change the client. \<open>new_session\<close> gives the session
  key the framework issues for a user. A Morsel is never falsy (it always carries its
  reserved attributes), so \<open>if previous_session\<close> asks whether the jar had the cookie. An
  exception raised inside \<open>finally\<close> replaces the result of the \<open>try\<close> block.
\<close>

definition client_request ::
  "string \<Rightarrow> ('u \<Rightarrow> string) \<Rightarrow> (client \<Rightarrow> (py_exception + 'r) \<times> client) \<Rightarrow>
   'u option \<Rightarrow> client \<Rightarrow> (py_exception + 'r) \<times> client" where
  "client_request session_key new_session send as_user self =
     (case as_user of
        Some u \<Rightarrow>
          (let previous_session = cookies self session_key;
               self1 = force_login session_key (new_session u) self;
               (result, self2) = send self1
           in (case previous_session of
                 Some m \<Rightarrow> (result, put_morsel session_key m self2)
               | None \<Rightarrow>
                   (case pop_cookie session_key self2 of
                      Inl e \<Rightarrow> (Inl e, self2)
                    | Inr self3 \<Rightarrow> (result, self3))))
      | None \<Rightarrow> send self)"

section \<open>The outbound HTTP mock (conftest.py, MockResponse and mock\_response)\<close>

text \<open>
  \<open>BytesIO.read(size)\<close>: the chunk read and what is left. \<open>None\<close> or a negative size reads
  all. The size is converted to the machine's index type (64 bits, signed): a size outside
  its range raises \<open>OverflowError\<close>.
\<close>

definition read :: "int option \<Rightarrow> string \<Rightarrow> py_exception + string \<times> string" where
  "read sz file =
     (case sz of
        None \<Rightarrow> Inr (file, [])
      | Some n \<Rightarrow>
          if n < - (2 ^ 63) \<or> 2 ^ 63 \<le> n then Inl OverflowError
          else if n < 0 then Inr (file, [])
          else Inr (take (nat n) file, drop (nat n) file))"

definition index_sized :: "int option \<Rightarrow> bool" where
  "index_sized sz = (case sz of None \<Rightarrow> True | Some n \<Rightarrow> - (2 ^ 63) \<le> n \<and> n < 2 ^ 63)"

text \<open>
  The \<open>while True\<close> loop of \<open>iter_content\<close>, lines 245-249: the chunks the generator
  yields, and the exception that ends it, if any.
\<close>

function chunks :: "int option \<Rightarrow> string \<Rightarrow> string list \<times> py_exception option" where
  "chunks chunk_size file =
     (case read chunk_size file of
        Inl e \<Rightarrow> ([], Some e)
      | Inr (chunk, rest) \<Rightarrow>
          if chunk = [] then ([], None)
          else (chunk # fst (chunks chunk_size rest), snd (chunks chunk_size rest)))"
  by pat_completeness auto
termination
  by (relation "measure (\<lambda>(chunk_size, file). length file)")
    (auto simp: read_def split: option.splits if_splits)

declare chunks.simps [simp del]

text \<open>Class \<open>MockResponse\<close>, lines 226-249. It has no fields.\<close>

datatype MockResponse = MockResponse

definition json :: "MockResponse \<Rightarrow> (string \<times> string) list" where
  "json self = [(''mock_key'', ''mock_response'')]"

definition status_code :: "MockResponse \<Rightarrow> int" where
  "status_code self = 200"

definition iter_content :: "MockResponse \<Rightarrow> int option \<Rightarrow> string list \<times> py_exception option" where
  "iter_content self chunk_size = chunks chunk_size ''Some file''"

text \<open>
  The \<open>requests\<close> module as far as the fixture touches it. A verb function takes its
  arguments and the network (the list of requests that have gone out) and returns a
  response and the network afterwards. \<open>put\<close> stands for the functions the fixture leaves alone.
\<close>

datatype 'r http_response = Real 'r | Mock MockResponse

type_synonym ('a, 'r) verb = "'a \<Rightarrow> 'a list \<Rightarrow> 'r http_response \<times> 'a list"

record ('a, 'r) requests_module =
  get :: "('a, 'r) verb"
  post :: "('a, 'r) verb"
  patch :: "('a, 'r) verb"
  delete :: "('a, 'r) verb"
  put :: "('a, 'r) verb"

definition mock_http_call :: "('a, 'r) verb" where
  "mock_http_call args network = (Mock MockResponse, network)"

text \<open>The fixture \<open>mock_response\<close>, lines 252-265: four \<open>monkeypatch.setattr\<close> calls.\<close>

definition mock_response :: "('a, 'r) requests_module \<Rightarrow> ('a, 'r) requests_module" where
  "mock_response requests =
     requests\<lparr>get := mock_http_call, post := mock_http_call,
              patch := mock_http_call, delete := mock_http_call\<rparr>"

section \<open>The views (web/main/views.py)\<close>

subsection \<open>Requests, responses and the state behind the views\<close>

text \<open>
  A user row. The e-mail address is the identity of a user (it is what the views look a
  user up by), so the table of users is a map from addresses to rows.
\<close>

record user =
  first_name :: string
  last_name :: string
  is_active :: bool
  email_confirmed :: bool

datatype mail = ConfirmationEmail string | PasswordResetEmail string

text \<open>
  The state a request runs against: the users, the rows of the token table (owner and
  key) and the messages sent so far.
\<close>

record world =
  users :: "string \<rightharpoonup> user"
  tokens :: "(string \<times> string) list"
  outbox :: "mail list"

text \<open>
  A request: its method, the submitted form fields in the order they arrived, and the
  address of the authenticated user (\<open>None\<close> for an anonymous request).
\<close>

record http_request =
  http_method :: string
  POST :: "(string \<times> string) list"
  req_user :: "string option"

text \<open>\<open>request.POST.get(key)\<close>: the last value submitted under the key, or \<open>None\<close>.\<close>

definition query_get :: "(string \<times> string) list \<Rightarrow> string \<Rightarrow> string option" where
  "query_get d k = map_of (rev d) k"

text \<open>\<open>request.POST or None\<close>: an empty set of fields is falsy.\<close>

definition or_None :: "(string \<times> string) list \<Rightarrow> (string \<times> string) list option" where
  "or_None d = (if d = [] then None else Some d)"

text \<open>A form: the data it is bound to, and the address of the row it edits, if any.\<close>

record form =
  data :: "(string \<times> string) list option"
  instance_of :: "string option"

text \<open>
  A response: a redirect, a rendered template with the form it shows, a JSON response of
  the REST framework (status and body), a plain response with its status, the framework's
  answer to a verb it does not serve, or the server-error page.
\<close>

datatype response =
    HttpResponseRedirect string
  | Render string "form option"
  | ApiResponse nat "(string \<times> string) list"
  | HttpResponse nat
  | HttpResponseNotAllowed
  | HttpResponseServerError

text \<open>The status code of a response.\<close>

fun status_of :: "response \<Rightarrow> nat" where
  "status_of (HttpResponseRedirect url) = 302"
| "status_of (Render template f) = 200"
| "status_of (ApiResponse status body) = status"
| "status_of (HttpResponse status) = status"
| "status_of HttpResponseNotAllowed = 405"
| "status_of HttpResponseServerError = 500"

text \<open>
  \<open>form.is_valid()\<close>: a form that is not bound to data is never valid; \<open>clean\<close> is the
  validation of the form class (web/main/forms.py), which may read the state.
\<close>

definition is_valid :: "(world \<Rightarrow> form \<Rightarrow> bool) \<Rightarrow> world \<Rightarrow> form \<Rightarrow> bool" where
  "is_valid clean w f = (data f \<noteq> None \<and> clean w f)"

subsection \<open>sign\_up and account\<close>

text \<open>
  \<open>sign_up\<close>, lines 106-111. \<open>clean\<close> and \<open>save\<close> are \<open>SignupForm\<close>'s validation and its
  \<open>save()\<close>.
\<close>

definition sign_up ::
  "(world \<Rightarrow> form \<Rightarrow> bool) \<Rightarrow> (form \<Rightarrow> world \<Rightarrow> world) \<Rightarrow> world \<Rightarrow> http_request \<Rightarrow>
   world \<times> response" where
  "sign_up clean save w request =
     (let f = \<lparr>data = or_None (POST request), instance_of = None\<rparr>
      in if http_method request = ''POST''
         then (if is_valid clean w f
               then (save f w, Render ''registration/sign_up_success.html'' None)
               else (w, Render ''registration/sign_up.html'' (Some f)))
         else (w, Render ''registration/sign_up.html'' (Some f)))"

text \<open>
  \<open>login_required\<close>: an anonymous request is sent to the login page and the view does not
  run.
\<close>

definition login_url :: string where
  "login_url = ''/login/''"

definition login_required ::
  "(world \<Rightarrow> http_request \<Rightarrow> string \<Rightarrow> world \<times> response) \<Rightarrow> world \<Rightarrow> http_request \<Rightarrow>
   world \<times> response" where
  "login_required view w request =
     (case req_user request of
        None \<Rightarrow> (w, HttpResponseRedirect login_url)
      | Some u \<Rightarrow> view w request u)"

text \<open>\<open>account\<close>, lines 243-249, with \<open>UserForm\<close>'s validation and \<open>save()\<close>.\<close>

definition account ::
  "(world \<Rightarrow> form \<Rightarrow> bool) \<Rightarrow> (form \<Rightarrow> world \<Rightarrow> world) \<Rightarrow> world \<Rightarrow> http_request \<Rightarrow>
   world \<times> response" where
  "account clean save =
     login_required (\<lambda>w request u.
       (let f = \<lparr>data = or_None (POST request), instance_of = Some u\<rparr>
        in if http_method request = ''POST''
           then (if is_valid clean w f
                 then (save f w, Render ''account.html'' (Some f))
                 else (w, Render ''account.html'' (Some f)))
           else (w, Render ''account.html'' (Some f))))"

subsection \<open>reset\_password\<close>

text \<open>\<open>PasswordResetView.success_url\<close>, the address of the "reset done" page.\<close>

definition success_url :: string where
  "success_url = ''/password_reset/done/''"

text \<open>
  \<open>OurPasswordResetView\<close>, lines 153-167: the framework's \<open>PasswordResetView\<close> with the
  project's form class. POST (and PUT) bind the form to the submitted fields; a form that
  validates is saved, which is when the form sends its mail, and the answer is the
  redirect to \<open>success_url\<close>; a form that does not validate is rendered again. GET (and
  HEAD) show the unbound form, OPTIONS is answered by the framework, any other method is
  not allowed. \<open>clean\<close> and \<open>save\<close> are the validation and the \<open>save()\<close> of
  \<open>forms.PasswordResetForm\<close> (web/main/forms.py is not among the sources).
\<close>

definition OurPasswordResetView ::
  "(world \<Rightarrow> form \<Rightarrow> bool) \<Rightarrow> (form \<Rightarrow> world \<Rightarrow> world) \<Rightarrow> world \<Rightarrow> http_request \<Rightarrow>
   world \<times> response" where
  "OurPasswordResetView clean save w request =
     (if http_method request = ''POST'' \<or> http_method request = ''PUT''
      then (let f = \<lparr>data = Some (POST request), instance_of = None\<rparr>
            in if is_valid clean w f
               then (save f w, HttpResponseRedirect success_url)
               else (w, Render ''registration/password_reset_form.html'' (Some f)))
      else if http_method request = ''GET'' \<or> http_method request = ''HEAD''
      then (w, Render ''registration/password_reset_form.html''
                 (Some \<lparr>data = None, instance_of = None\<rparr>))
      else if http_method request = ''OPTIONS''
      then (w, HttpResponse 200)
      else (w, HttpResponseNotAllowed))"

text \<open>
  \<open>User.objects.get(email=...)\<close> inside \<open>try ... except User.DoesNotExist\<close>: the address
  and the row, or \<open>None\<close>. No row has a null address.
\<close>

definition objects_get :: "world \<Rightarrow> string option \<Rightarrow> (string \<times> user) option" where
  "objects_get w address =
     (case address of
        None \<Rightarrow> None
      | Some a \<Rightarrow> (case users w a of None \<Rightarrow> None | Some u \<Rightarrow> Some (a, u)))"

text \<open>
  \<open>reset_password\<close>, lines 143-167. \<open>send_confirmation_email\<close> is the method of the user
  row (web/main/models.py is not among the sources); it is given the address and the row.
\<close>

definition reset_password ::
  "(string \<times> user \<Rightarrow> world \<Rightarrow> world) \<Rightarrow> (world \<Rightarrow> form \<Rightarrow> bool) \<Rightarrow> (form \<Rightarrow> world \<Rightarrow> world) \<Rightarrow>
   world \<Rightarrow> http_request \<Rightarrow> world \<times> response" where
  "reset_password send_confirmation_email clean save w request =
     (let target_user =
            (if http_method request = ''POST''
             then objects_get w (query_get (POST request) ''email'')
             else None)
      in case target_user of
           Some (a, u) \<Rightarrow>
             if \<not> email_confirmed u
             then (send_confirmation_email (a, u) w, HttpResponseRedirect success_url)
             else OurPasswordResetView clean save w request
         | None \<Rightarrow> OurPasswordResetView clean save w request)"

subsection \<open>reset\_token\<close>

text \<open>
  Modelled from the spec: \<open>User.get_new_token\<close> (web/main/models.py is not among the
  sources). Spec 3 and 4.6: a new token is issued for the user and the prior one is
  invalidated. \<open>generate_key\<close> draws the new key, given the keys in the table.
\<close>

definition get_new_token ::
  "(string list \<Rightarrow> string) \<Rightarrow> string \<Rightarrow> world \<Rightarrow> string \<times> world" where
  "get_new_token generate_key u w =
     (let key = generate_key (map snd (tokens w))
      in (key, w\<lparr>tokens := filter (\<lambda>row. fst row \<noteq> u) (tokens w) @ [(u, key)]\<rparr>))"

text \<open>
  The project's settings for the REST framework (web/config is not among the sources), as
  far as they decide the answer to an anonymous request: whether the default permission
  asks for an authenticated user, and whether the first authentication class sends a
  \<open>WWW-Authenticate\<close> challenge (the framework answers 401 with one, 403 without).
\<close>

record rest_settings =
  is_authenticated_required :: bool
  authenticate_header :: bool

text \<open>
  The REST framework's \<open>api_view\<close> wrapper. It checks the permission before it looks for
  the handler of the method; it serves OPTIONS itself; a method outside the list is not
  allowed.
\<close>

definition api_view ::
  "rest_settings \<Rightarrow> string list \<Rightarrow> (world \<Rightarrow> http_request \<Rightarrow> world \<times> response) \<Rightarrow> world \<Rightarrow>
   http_request \<Rightarrow> world \<times> response" where
  "api_view settings http_method_names view w request =
     (if req_user request = None \<and> is_authenticated_required settings
      then (w, ApiResponse (if authenticate_header settings then 401 else 403)
                 [(''detail'', ''Authentication credentials were not provided.'')])
      else if http_method request = ''OPTIONS''
      then (w, ApiResponse 200 [])
      else if http_method request \<in> set http_method_names
      then view w request
      else (w, ApiResponse 405 [(''detail'', ''Method not allowed.'')]))"

text \<open>
  \<open>reset_token\<close>, lines 174-192. An anonymous user has no \<open>get_new_token\<close>: if the
  permission lets one through, the attribute error ends in the server-error page.
\<close>

definition reset_token ::
  "(string list \<Rightarrow> string) \<Rightarrow> rest_settings \<Rightarrow> world \<Rightarrow> http_request \<Rightarrow> world \<times> response"
  where
  "reset_token generate_key settings =
     api_view settings [''POST''] (\<lambda>w request.
       (case req_user request of
          None \<Rightarrow> (w, HttpResponseServerError)
        | Some u \<Rightarrow>
            (let (token, w') = get_new_token generate_key u w
             in (w', ApiResponse 200 [(''token'', token)]))))"

section \<open>Reference notions and example data\<close>

subsection \<open>The statement histogram\<close>

text \<open>
  A histogram of statements under a classification of their text: for each class that is
  not savepoint, release, set or show and that occurs among the statements, the number of
  statements in it; no entry for any other class.
\<close>

definition histogram_by :: "(string \<Rightarrow> string) \<Rightarrow> query list \<Rightarrow> string \<Rightarrow> int option" where
  "histogram_by classify qs k =
     (let n = length (filter (\<lambda>q. classify (sql q) = k) qs)
      in if k \<noteq> ''savepoint'' \<and> k \<noteq> ''release'' \<and> k \<noteq> ''set'' \<and> k \<noteq> ''show'' \<and> 0 < n
         then Some (int n) else None)"

text \<open>
  The classification the spec names: the leading keyword of the statement, that is its
  first word (white space before it does not count, any white space ends it), in lower
  case.
\<close>

definition leading_keyword :: "string \<Rightarrow> string" where
  "leading_keyword s = lower (takeWhile (\<lambda>c. \<not> isspace c) (dropWhile isspace s))"

definition keyword_histogram :: "query list \<Rightarrow> string \<Rightarrow> int option" where
  "keyword_histogram = histogram_by leading_keyword"

text \<open>The classification by the text before the first space, in lower case.\<close>

definition before_first_space :: "string \<Rightarrow> string" where
  "before_first_space s = lower (takeWhile (\<lambda>c. c \<noteq> CHR '' '') s)"

definition histogram :: "query list \<Rightarrow> string \<Rightarrow> int option" where
  "histogram = histogram_by before_first_space"

text \<open>The text of a dict of counts whose keys need no escaping, as \<open>%s\<close> prints it.\<close>

definition show_int :: "int \<Rightarrow> string" where
  "show_int i = (if i < 0 then ''-'' @ digits (nat (- i)) else digits (nat i))"

fun items_text :: "int dict \<Rightarrow> string" where
  "items_text [] = []"
| "items_text [(k, v)] = quote # k @ quote # '': '' @ show_int v"
| "items_text ((k, v) # kvs) = quote # k @ quote # '': '' @ show_int v @ '', '' @ items_text kvs"

definition dict_text :: "int dict \<Rightarrow> string" where
  "dict_text d = ''{'' @ items_text d @ ''}''"

text \<open>
  A statement captured under a view, innermost frame first: the two frames of the tracing
  wrapper, a frame of the framework under the library path, the frame of the view, and the
  frame of a frozen module that started the test run, for which the interpreter has no
  source.
\<close>

definition traced :: "string \<Rightarrow> query" where
  "traced statement =
     capture_stack ''/usr/lib/python3'' statement
       [\<lparr>filename = ''/app/conftest.py'', lineno = 98,
          code_context = Some [''            stack = inspect.stack()'']\<rparr>,
        \<lparr>filename = ''/app/conftest.py'', lineno = 116,
          code_context = Some [''                self.capture_stack()'']\<rparr>,
        \<lparr>filename = ''/usr/lib/python3/site-packages/django/db/models/query.py'', lineno = 429,
          code_context = Some [''        num = len(clone)'']\<rparr>,
        \<lparr>filename = ''/app/main/views.py'', lineno = 145,
          code_context = Some [''            target_user = User.objects.get(email=e)  '']\<rparr>,
        \<lparr>filename = ''<frozen runpy>'', lineno = 198, code_context = None\<rparr>]"

subsection \<open>A client that is logged in\<close>

text \<open>
  The jar of a client after \<open>client.force_login(user1)\<close>: one Morsel, at address 0, holding
  the key of that session.
\<close>

definition logged_in :: client where
  "logged_in =
     \<lparr>cookies = [''sessionid'' \<mapsto> 0], morsels = (\<lambda>m. [])(0 := ''session-1''), next_addr = 1\<rparr>"

definition anonymous :: client where
  "anonymous = \<lparr>cookies = Map.empty, morsels = (\<lambda>m. []), next_addr = 0\<rparr>"

text \<open>A request that is answered with status 200, and one that raises; neither touches the jar.\<close>

definition answers :: "client \<Rightarrow> (py_exception + nat) \<times> client" where
  "answers self = (Inr 200, self)"

definition fails :: "client \<Rightarrow> (py_exception + nat) \<times> client" where
  "fails self = (Inl (OtherError ''boom''), self)"

definition session_2 :: "string \<Rightarrow> string" where
  "session_2 u = ''session-2''"

subsection \<open>Example data\<close>

text \<open>
  The fixtures of the tests: a user row with given \<open>is_active\<close> and \<open>email_confirmed\<close>
  (\<open>UserFactory\<close>, \<open>UnconfirmedUserFactory\<close>, \<open>DeactivatedUserFactory\<close>), a state with one
  user, the empty state, a validation that asks for an at sign, and two requests.
\<close>

definition person :: "bool \<Rightarrow> bool \<Rightarrow> user" where
  "person active confirmed =
     \<lparr>first_name = ''Test'', last_name = ''User'', is_active = active, email_confirmed = confirmed\<rparr>"

definition one_user :: "string \<Rightarrow> user \<Rightarrow> world" where
  "one_user a u = \<lparr>users = [a \<mapsto> u], tokens = [(a, ''c0ffee'')], outbox = []\<rparr>"

definition no_users :: world where
  "no_users = \<lparr>users = Map.empty, tokens = [], outbox = []\<rparr>"

definition has_at :: "string option \<Rightarrow> bool" where
  "has_at address = (case address of None \<Rightarrow> False | Some a \<Rightarrow> CHR ''@'' \<in> set a)"

definition clean_email :: "world \<Rightarrow> form \<Rightarrow> bool" where
  "clean_email w f = (case data f of None \<Rightarrow> False | Some d \<Rightarrow> has_at (query_get d ''email''))"

definition save_user :: "form \<Rightarrow> world \<Rightarrow> world" where
  "save_user f w =
     (case data f of
        None \<Rightarrow> w
      | Some d \<Rightarrow>
          (case query_get d ''email'' of
             None \<Rightarrow> w
           | Some a \<Rightarrow> w\<lparr>users := (users w)(a \<mapsto> person True False)\<rparr>))"

text \<open>
  Stand-ins for the two helpers that send mail: a confirmation email to the address, and
  a password-reset email to the submitted address when it is that of an active user.
\<close>

definition mail_confirmation :: "string \<times> user \<Rightarrow> world \<Rightarrow> world" where
  "mail_confirmation target w = w\<lparr>outbox := outbox w @ [ConfirmationEmail (fst target)]\<rparr>"

definition mail_reset :: "form \<Rightarrow> world \<Rightarrow> world" where
  "mail_reset f w =
     (case data f of
        None \<Rightarrow> w
      | Some d \<Rightarrow>
          (case objects_get w (query_get d ''email'') of
             None \<Rightarrow> w
           | Some (a, u) \<Rightarrow>
               if is_active u then w\<lparr>outbox := outbox w @ [PasswordResetEmail a]\<rparr> else w))"

definition post_email :: "string \<Rightarrow> string option \<Rightarrow> http_request" where
  "post_email a who = \<lparr>http_method = ''POST'', POST = [(''email'', a)], req_user = who\<rparr>"

definition bare :: "string \<Rightarrow> string option \<Rightarrow> http_request" where
  "bare m who = \<lparr>http_method = m, POST = [], req_user = who\<rparr>"

definition token_settings :: rest_settings where
  "token_settings = \<lparr>is_authenticated_required = True, authenticate_header = True\<rparr>"

definition append_x :: "string list \<Rightarrow> string" where
  "append_x keys = concat keys @ ''x''"

section \<open>Properties of the outbound HTTP mock\<close>

lemma read_in_range:
  "index_sized chunk_size \<Longrightarrow>
   \<exists>chunk rest. read chunk_size buf = Inr (chunk, rest) \<and> chunk @ rest = buf
     \<and> (chunk_size \<noteq> Some 0 \<longrightarrow> chunk = [] \<longrightarrow> buf = [])"
  by (cases chunk_size) (auto simp: read_def index_sized_def not_less)

text \<open>For every chunk size the buffer accepts, except 0, the chunks make up the buffer.\<close>

lemma chunks_in_range:
  "index_sized chunk_size \<Longrightarrow> chunk_size \<noteq> Some 0 \<Longrightarrow>
   snd (chunks chunk_size buf) = None \<and> concat (fst (chunks chunk_size buf)) = buf"
proof (induction chunk_size buf rule: chunks.induct)
  case (1 chunk_size buf)
  obtain chunk rest where r: "read chunk_size buf = Inr (chunk, rest)" and cat: "chunk @ rest = buf"
    and e: "chunk = [] \<Longrightarrow> buf = []"
    using read_in_range [OF "1.prems"(1), of buf] "1.prems"(2) by blast
  show ?case
  proof (cases "chunk = []")
    case True
    with r e show ?thesis by (subst (1 2) chunks.simps) simp
  next
    case False
    with "1.IH" [OF r refl False "1.prems"] r cat show ?thesis
      by (subst (1 2) chunks.simps) simp
  qed
qed

text \<open>A chunk size of 0 ends the loop at once; one outside the index range raises.\<close>

lemma chunks_zero: "chunks (Some 0) buf = ([], None)"
  by (subst chunks.simps) (simp add: read_def)

lemma chunks_overflow:
  "n < - (2 ^ 63) \<or> 2 ^ 63 \<le> n \<Longrightarrow> chunks (Some n) buf = ([], Some OverflowError)"
  by (subst chunks.simps) (simp add: read_def)

text \<open>
  Claim C9. Once the fixture \<open>mock_response\<close> has run, each of \<open>requests.get\<close>,
  \<open>requests.post\<close>, \<open>requests.patch\<close> and \<open>requests.delete\<close> is the stub: whatever the
  arguments, the call returns a \<open>MockResponse\<close> and sends nothing over the network. The
  response has status code 200 and the JSON body \<open>{"mock_key": "mock_response"}\<close>, and its
  body is a stream of bytes: \<open>iter_content()\<close> yields the bytes of \<open>Some file\<close> one by one,
  and for every chunk size the buffer accepts, except 0, the chunks it yields make up
  \<open>Some file\<close>.
\<close>

theorem mock_response_stub:
  "get (mock_response requests) args network = (Mock MockResponse, network)
   \<and> post (mock_response requests) args network = (Mock MockResponse, network)
   \<and> patch (mock_response requests) args network = (Mock MockResponse, network)
   \<and> delete (mock_response requests) args network = (Mock MockResponse, network)
   \<and> status_code MockResponse = 200
   \<and> json MockResponse = [(''mock_key'', ''mock_response'')]
   \<and> iter_content MockResponse (Some 1)
       = ([''S'', ''o'', ''m'', ''e'', '' '', ''f'', ''i'', ''l'', ''e''], None)
   \<and> (index_sized chunk_size \<and> chunk_size \<noteq> Some 0 \<longrightarrow>
        snd (iter_content MockResponse chunk_size) = None
        \<and> concat (fst (iter_content MockResponse chunk_size)) = ''Some file'')"
proof -
  have "iter_content MockResponse (Some 1)
       = ([''S'', ''o'', ''m'', ''e'', '' '', ''f'', ''i'', ''l'', ''e''], None)"
    by code_simp
  then show ?thesis
    by (simp add: mock_response_def mock_http_call_def status_code_def json_def chunks_in_range
        iter_content_def [of _ chunk_size])
qed

text \<open>
  An instance: the real functions would answer 404 and record the request; after the
  fixture a \<open>get\<close> leaves the network untouched, and chunks of 4 bytes are read.
\<close>

theorem mock_response_stub_witness:
  "get (mock_response
          \<lparr>get = (\<lambda>a n. (Real (404::nat), n @ [a])), post = (\<lambda>a n. (Real 404, n @ [a])),
           patch = (\<lambda>a n. (Real 404, n @ [a])), delete = (\<lambda>a n. (Real 404, n @ [a])),
           put = (\<lambda>a n. (Real 404, n @ [a]))\<rparr>) ''http://example.com/'' []
     = (Mock MockResponse, [])
   \<and> index_sized (Some 4) \<and> Some (4::int) \<noteq> Some 0
   \<and> iter_content MockResponse (Some 4) = ([''Some'', '' fil'', ''e''], None)
   \<and> concat (fst (iter_content MockResponse (Some 4))) = ''Some file''"
proof -
  have "iter_content MockResponse (Some 4) = ([''Some'', '' fil'', ''e''], None)"
    by code_simp
  moreover have "index_sized (Some 4)" by (simp add: index_sized_def)
  ultimately show ?thesis
    using mock_response_stub
      [of "\<lparr>get = (\<lambda>a n. (Real (404::nat), n @ [a])), post = (\<lambda>a n. (Real 404, n @ [a])),
            patch = (\<lambda>a n. (Real 404, n @ [a])), delete = (\<lambda>a n. (Real 404, n @ [a])),
            put = (\<lambda>a n. (Real 404, n @ [a]))\<rparr>" "''http://example.com/''" "[]" "Some 4"]
    by simp
qed

section \<open>Properties of the views\<close>

text \<open>
  Claim C7. A POST to \<open>sign_up\<close> whose form does not validate leaves the state as it was
  (\<open>save\<close> is not called) and answers with the sign-up template showing the submitted
  form. The same holds for \<open>account\<close> when the request comes from a logged-in user: the
  state is unchanged and the account template shows the submitted form. (An anonymous
  request never reaches the account form: \<open>login_required\<close> redirects it.)
\<close>

theorem invalid_form_not_saved:
  assumes "http_method request = ''POST''"
  shows "(\<not> is_valid clean w \<lparr>data = or_None (POST request), instance_of = None\<rparr> \<longrightarrow>
            sign_up clean save w request =
              (w, Render ''registration/sign_up.html''
                    (Some \<lparr>data = or_None (POST request), instance_of = None\<rparr>)))
       \<and> (req_user request = Some u \<and>
            \<not> is_valid clean' w \<lparr>data = or_None (POST request), instance_of = Some u\<rparr> \<longrightarrow>
            account clean' save' w request =
              (w, Render ''account.html''
                    (Some \<lparr>data = or_None (POST request), instance_of = Some u\<rparr>)))"
  using assms by (simp add: sign_up_def account_def login_required_def Let_def)

theorem invalid_form_not_saved_witness:
  "http_method (post_email ''nobody'' (Some ''user@example.edu'')) = ''POST''
   \<and> \<not> is_valid clean_email no_users
         \<lparr>data = or_None (POST (post_email ''nobody'' (Some ''user@example.edu''))), instance_of = None\<rparr>
   \<and> sign_up clean_email save_user no_users (post_email ''nobody'' (Some ''user@example.edu'')) =
       (no_users, Render ''registration/sign_up.html''
          (Some \<lparr>data = Some [(''email'', ''nobody'')], instance_of = None\<rparr>))
   \<and> account clean_email save_user no_users (post_email ''nobody'' (Some ''user@example.edu'')) =
       (no_users, Render ''account.html''
          (Some \<lparr>data = Some [(''email'', ''nobody'')], instance_of = Some ''user@example.edu''\<rparr>))"
proof -
  let ?r = "post_email ''nobody'' (Some ''user@example.edu'')"
  have m: "http_method ?r = ''POST''" by (simp add: post_email_def)
  have d: "or_None (POST ?r) = Some [(''email'', ''nobody'')]"
    by (simp add: post_email_def or_None_def)
  have u: "req_user ?r = Some ''user@example.edu''" by (simp add: post_email_def)
  have v: "\<not> is_valid clean_email no_users \<lparr>data = or_None (POST ?r), instance_of = i\<rparr>" for i
    by (simp add: d is_valid_def clean_email_def has_at_def query_get_def)
  show ?thesis
    using invalid_form_not_saved [OF m, of clean_email no_users save_user "''user@example.edu''" clean_email save_user]
      m v u d by simp
qed

text \<open>
  What \<open>reset_password\<close> does with a POST. For the address of an unconfirmed user it
  calls \<open>send_confirmation_email\<close> and answers with the redirect; the form is neither
  validated nor saved. In every other case the form decides: saved and redirect when it
  validates, rendered again when not.
\<close>

lemma reset_password_unconfirmed:
  assumes "http_method request = ''POST''"
    and "query_get (POST request) ''email'' = Some a"
    and "users w a = Some u" and "\<not> email_confirmed u"
  shows "reset_password send_confirmation_email clean save w request =
           (send_confirmation_email (a, u) w, HttpResponseRedirect success_url)"
  using assms by (simp add: reset_password_def objects_get_def)

lemma reset_password_otherwise:
  assumes "http_method request = ''POST''"
    and "\<And>a u. query_get (POST request) ''email'' = Some a \<Longrightarrow> users w a = Some u \<Longrightarrow>
           email_confirmed u"
  shows "reset_password send_confirmation_email clean save w request =
           (if is_valid clean w \<lparr>data = Some (POST request), instance_of = None\<rparr>
            then (save \<lparr>data = Some (POST request), instance_of = None\<rparr> w,
                  HttpResponseRedirect success_url)
            else (w, Render ''registration/password_reset_form.html''
                      (Some \<lparr>data = Some (POST request), instance_of = None\<rparr>)))"
  using assms
  by (auto simp: reset_password_def OurPasswordResetView_def objects_get_def Let_def
      split: option.splits)

text \<open>
  So a POST whose form validates is answered with the redirect whatever the table of users
  holds.
\<close>

lemma reset_password_valid_response:
  assumes "http_method request = ''POST''"
    and "is_valid clean w \<lparr>data = Some (POST request), instance_of = None\<rparr>"
  shows "snd (reset_password send_confirmation_email clean save w request)
           = HttpResponseRedirect success_url"
  using assms
  by (auto simp: reset_password_def OurPasswordResetView_def objects_get_def Let_def
      split: option.splits)

text \<open>
  Claim C1, at an input where it fails. The submitted address \<open>nobody\<close> is one the form
  does not accept. When it is the address of an unconfirmed user (rows come into the table
  without passing a form, as the test factories show), the view answers with the redirect
  before any validation; when it is nobody's address, or that of a confirmed or a
  deactivated user, the form is rendered again. The response tells the two apart, which
  the docstring of the view says it must not.
\<close>

theorem unconfirmed_address_told_apart:
  "snd (reset_password mail_confirmation clean_email mail_reset
          (one_user ''nobody'' (person True False)) (post_email ''nobody'' None))
     = HttpResponseRedirect success_url
   \<and> snd (reset_password mail_confirmation clean_email mail_reset
            no_users (post_email ''nobody'' None))
     = Render ''registration/password_reset_form.html''
         (Some \<lparr>data = Some [(''email'', ''nobody'')], instance_of = None\<rparr>)
   \<and> snd (reset_password mail_confirmation clean_email mail_reset
            (one_user ''nobody'' (person True True)) (post_email ''nobody'' None))
     = Render ''registration/password_reset_form.html''
         (Some \<lparr>data = Some [(''email'', ''nobody'')], instance_of = None\<rparr>)
   \<and> snd (reset_password mail_confirmation clean_email mail_reset
            (one_user ''nobody'' (person False True)) (post_email ''nobody'' None))
     = Render ''registration/password_reset_form.html''
         (Some \<lparr>data = Some [(''email'', ''nobody'')], instance_of = None\<rparr>)"
  by (simp add: reset_password_def OurPasswordResetView_def objects_get_def query_get_def
      one_user_def no_users_def person_def post_email_def is_valid_def clean_email_def
      has_at_def)

text \<open>With an address the form accepts, the four states of the tests give one response.\<close>

lemma four_states_one_response:
  "snd (reset_password mail_confirmation clean_email mail_reset
          (one_user ''user@example.edu'' (person True True)) (post_email ''user@example.edu'' None))
     = HttpResponseRedirect success_url
   \<and> snd (reset_password mail_confirmation clean_email mail_reset
            (one_user ''user@example.edu'' (person True False))
            (post_email ''user@example.edu'' None))
     = HttpResponseRedirect success_url
   \<and> snd (reset_password mail_confirmation clean_email mail_reset
            (one_user ''user@example.edu'' (person False True))
            (post_email ''user@example.edu'' None))
     = HttpResponseRedirect success_url
   \<and> snd (reset_password mail_confirmation clean_email mail_reset
            no_users (post_email ''user@example.edu'' None))
     = HttpResponseRedirect success_url"
proof -
  have "http_method (post_email ''user@example.edu'' None) = ''POST''"
    by (simp add: post_email_def)
  moreover have "is_valid clean_email w
     \<lparr>data = Some (POST (post_email ''user@example.edu'' None)), instance_of = None\<rparr>" for w
    by (simp add: is_valid_def clean_email_def has_at_def query_get_def post_email_def)
  ultimately show ?thesis by (simp add: reset_password_valid_response)
qed

text \<open>
  Claim C8, as amended. Under settings that require an authenticated user and challenge
  an anonymous one: an authenticated POST to \<open>reset_token\<close> returns status 200 with a JSON
  body holding a \<open>token\<close> string; an unauthenticated request returns 401, whatever its
  method; a GET by an authenticated user returns 405.
\<close>

theorem reset_token_status:
  assumes "is_authenticated_required settings" and "authenticate_header settings"
  shows "(req_user request = Some u \<and> http_method request = ''POST'' \<longrightarrow>
            (\<exists>k. snd (reset_token generate_key settings w request)
                   = ApiResponse 200 [(''token'', k)]))
       \<and> (req_user request = None \<longrightarrow>
            status_of (snd (reset_token generate_key settings w request)) = 401)
       \<and> (req_user request = Some u \<and> http_method request = ''GET'' \<longrightarrow>
            status_of (snd (reset_token generate_key settings w request)) = 405)"
  using assms by (simp add: reset_token_def api_view_def get_new_token_def Let_def)

theorem reset_token_status_witness:
  "is_authenticated_required token_settings \<and> authenticate_header token_settings
   \<and> req_user (bare ''POST'' (Some ''user@example.edu'')) = Some ''user@example.edu''
   \<and> http_method (bare ''POST'' (Some ''user@example.edu'')) = ''POST''
   \<and> (\<exists>k. snd (reset_token append_x token_settings (one_user ''user@example.edu'' (person True True))
                  (bare ''POST'' (Some ''user@example.edu''))) = ApiResponse 200 [(''token'', k)])
   \<and> req_user (bare ''POST'' None) = None
   \<and> status_of (snd (reset_token append_x token_settings
                        (one_user ''user@example.edu'' (person True True)) (bare ''POST'' None))) = 401
   \<and> http_method (bare ''GET'' (Some ''user@example.edu'')) = ''GET''
   \<and> status_of (snd (reset_token append_x token_settings
                        (one_user ''user@example.edu'' (person True True))
                        (bare ''GET'' (Some ''user@example.edu'')))) = 405"
proof -
  let ?w = "one_user ''user@example.edu'' (person True True)"
  have a: "req_user (bare m who) = who" "http_method (bare m who) = m" for m who
    by (simp_all add: bare_def)
  have s: "is_authenticated_required token_settings" "authenticate_header token_settings"
    by (simp_all add: token_settings_def)
  show ?thesis
    using reset_token_status
        [OF s, of "bare ''POST'' (Some ''user@example.edu'')" "''user@example.edu''" append_x ?w]
      reset_token_status [OF s, of "bare ''POST'' None" "''user@example.edu''" append_x ?w]
      reset_token_status
        [OF s, of "bare ''GET'' (Some ''user@example.edu'')" "''user@example.edu''" append_x ?w]
    by (simp add: a s)
qed

text \<open>
  Claim C8 as stated asks both 401 and 405 of an unauthenticated GET. It is answered with
  401: the permission is checked before the method is looked at.
\<close>

theorem anonymous_get_is_401:
  "req_user (bare ''GET'' None) = None
   \<and> http_method (bare ''GET'' None) = ''GET''
   \<and> status_of (snd (reset_token append_x token_settings no_users (bare ''GET'' None))) = 401
   \<and> status_of (snd (reset_token append_x token_settings no_users (bare ''GET'' None))) \<noteq> 405"
  by (simp add: bare_def reset_token_def api_view_def token_settings_def)

section \<open>Properties of the query-count assertion\<close>

lemma map_of_incr:
  "map_of (incr d k) k' =
     (if k' = k then Some ((case map_of d k of None \<Rightarrow> 0 | Some n \<Rightarrow> n) + 1) else map_of d k')"
  by (simp add: incr_def update_conv')

lemma query_type_before_first_space: "query_type q = before_first_space (sql q)"
proof (cases "CHR '' '' \<in> set (sql q)")
  case True
  then show ?thesis by (simp add: query_type_def split1_def before_first_space_def)
next
  case False
  then have tw: "takeWhile (\<lambda>c. c \<noteq> CHR '' '') (sql q) = sql q"
    by (auto simp: takeWhile_eq_all_conv)
  from False show ?thesis by (simp add: query_type_def split1_def before_first_space_def tw)
qed

lemma map_of_count_queries:
  "map_of (count_queries acc qs) k =
     (if k \<in> set ignored_types \<or> length (filter (\<lambda>q. query_type q = k) qs) = 0
      then map_of acc k
      else Some ((case map_of acc k of None \<Rightarrow> 0 | Some n \<Rightarrow> n)
                 + int (length (filter (\<lambda>q. query_type q = k) qs))))"
proof (induction qs arbitrary: acc)
  case Nil
  then show ?case by simp
next
  case (Cons q qs)
  show ?case
    by (cases "map_of acc k") (auto simp: Cons.IH map_of_incr)
qed

lemma distinct_incr: "distinct (map fst d) \<Longrightarrow> distinct (map fst (incr d k))"
  by (simp add: incr_def distinct_update)

lemma distinct_count_queries:
  "distinct (map fst acc) \<Longrightarrow> distinct (map fst (count_queries acc qs))"
  by (induction qs arbitrary: acc) (auto simp: distinct_incr)

lemma dict_eq_imp_le: 
  assumes "list_all (\<lambda>(k, v). map_of b k = Some v) a"
  shows "map_of a k = Some v \<Longrightarrow> map_of b k = Some v"
  using assms by (auto simp: list_all_iff dest!: map_of_SomeD)

lemma card_dom_map_of: "distinct (map fst a) \<Longrightarrow> card (dom (map_of a)) = length a"
  by (simp add: dom_map_of_conv_image_fst distinct_card flip: set_map)

text \<open>On dicts (pairwise different keys) Python's equality is equality of the mappings.\<close>

lemma dict_eq_iff:
  assumes da: "distinct (map fst a)" and db: "distinct (map fst b)"
  shows "dict_eq a b \<longleftrightarrow> map_of a = map_of b"
proof
  assume eq: "dict_eq a b"
  then have len: "length a = length b"
    and sub: "list_all (\<lambda>(k, v). map_of b k = Some v) a"
    by (simp_all add: dict_eq_def)
  have le: "\<And>k v. map_of a k = Some v \<Longrightarrow> map_of b k = Some v"
    using sub by (rule dict_eq_imp_le)
  then have "dom (map_of a) \<subseteq> dom (map_of b)" by auto
  moreover have "card (dom (map_of a)) = card (dom (map_of b))"
    using da db len by (simp add: card_dom_map_of)
  ultimately have doms: "dom (map_of a) = dom (map_of b)"
    by (simp add: card_subset_eq finite_dom_map_of)
  show "map_of a = map_of b"
  proof
    fix k
    show "map_of a k = map_of b k"
    proof (cases "map_of a k")
      case None
      then have "k \<notin> dom (map_of b)" using doms by (auto simp: domIff)
      with None show ?thesis by (simp add: domIff)
    next
      case (Some v)
      with le show ?thesis by simp
    qed
  qed
next
  assume eq: "map_of a = map_of b"
  have "length a = card (dom (map_of a))" using da by (simp add: card_dom_map_of)
  also have "\<dots> = length b" using db eq by (simp add: card_dom_map_of)
  finally have "length a = length b" .
  moreover have "list_all (\<lambda>(k, v). map_of b k = Some v) a"
    using da eq [symmetric] by (auto simp: list_all_iff)
  ultimately show "dict_eq a b" by (simp add: dict_eq_def)
qed

text \<open>The loop of lines 131-135 computes the histogram.\<close>

lemma map_of_histogram: "map_of (count_queries [] qs) = histogram qs"
  by (rule ext)
    (auto simp: map_of_count_queries histogram_def histogram_by_def ignored_types_def
      query_type_before_first_space Let_def)

text \<open>
  When the block has run to its end, the assertion passes if and only if the expected
  counts are exactly the histogram of the captured statements.
\<close>

lemma passes_iff:
  assumes "distinct (map fst expected_counts)"
  shows "assert_num_queries fmt verbose expected_counts (qs, None) = Passed
         \<longleftrightarrow> map_of expected_counts = histogram qs"
proof -
  have "distinct (map fst (count_queries [] qs))"
    by (rule distinct_count_queries) simp
  with assms have "dict_eq expected_counts (count_queries [] qs)
      \<longleftrightarrow> map_of expected_counts = histogram qs"
    by (simp add: dict_eq_iff map_of_histogram)
  then show ?thesis
    by (auto simp: assert_num_queries_def Let_def split: sum.splits)
qed

text \<open>
  On a mismatch the assertion never passes. Without \<open>-v\<close> it fails with the message
  that lists expected and actual counts; with one \<open>-v\<close> the report of the queries can
  always be built, since the one frame printed per query was chosen among frames that have
  source lines.
\<close>

lemma mismatch_not_passed:
  "\<not> dict_eq expected_counts (count_queries [] qs) \<Longrightarrow>
   assert_num_queries fmt verbose expected_counts (qs, None) \<noteq> Passed"
  by (simp add: assert_num_queries_def Let_def split: sum.splits)

lemma mismatch_quiet:
  "\<not> dict_eq expected_counts (count_queries [] qs) \<Longrightarrow> verbose \<le> 0 \<Longrightarrow>
   assert_num_queries fmt verbose expected_counts (qs, None) =
     Failed (unexpected fmt expected_counts (count_queries [] qs) @ verbosity_hint)"
  by (simp add: assert_num_queries_def Let_def)

lemma frame_text_userland:
  "get_userland_stack_frame p st = Some f \<Longrightarrow> \<exists>t. frame_text f = Inr t"
  by (auto simp: get_userland_stack_frame_def find_Some_iff has_context_def frame_text_def
      split: option.splits list.splits)

lemma queries_text_verbose1:
  "\<forall>q \<in> set qs. \<exists>p s st. q = capture_stack p s st \<Longrightarrow> verbose \<le> 1 \<Longrightarrow>
   \<exists>t. queries_text verbose qs = Inr t"
proof (induction qs)
  case Nil
  then show ?case by simp
next
  case (Cons q qs)
  then obtain p s st where q: "q = capture_stack p s st" by auto
  have "\<exists>t. frames_text (stack_frames verbose q) = Inr t"
  proof (cases "get_userland_stack_frame p st")
    case None
    then show ?thesis using Cons.prems(2) by (simp add: q stack_frames_def capture_stack_def)
  next
    case (Some f)
    then obtain t where "frame_text f = Inr t" using frame_text_userland by blast
    then show ?thesis using Cons.prems(2) Some by (simp add: q stack_frames_def capture_stack_def)
  qed
  moreover have "\<exists>t. queries_text verbose qs = Inr t" using Cons by simp
  ultimately show ?case by auto
qed

lemma mismatch_verbose1:
  assumes "\<not> dict_eq expected_counts (count_queries [] qs)" and "verbose = 1"
    and "\<forall>q \<in> set qs. \<exists>p s st. q = capture_stack p s st"
  shows "\<exists>t. assert_num_queries fmt verbose expected_counts (qs, None) =
           Failed (unexpected fmt expected_counts (count_queries [] qs) @ queries_header @ t)"
proof -
  obtain t where "queries_text verbose qs = Inr t"
    using queries_text_verbose1 [OF assms(3)] assms(2) by auto
  then show ?thesis
    using assms(1,2) by (simp add: assert_num_queries_def Let_def)
qed

text \<open>
  With \<open>-v -v\<close> every frame of the captured stack is printed, and line 143 reads
  \<open>code_context[0]\<close> of each; \<open>get_userland_stack_frame\<close> skips frames without source
  lines, this loop does not. One select was issued and two were expected: with one \<open>-v\<close>
  the assertion fails with the message and the report, with two it raises \<open>TypeError\<close>.
\<close>

lemma verbose_report_raises:
  "\<not> dict_eq [(''select'', 2)] (count_queries [] [traced ''SELECT 1''])
   \<and> assert_num_queries dict_text 2 [(''select'', 2)] ([traced ''SELECT 1''], None)
       = Raised TypeError
   \<and> assert_num_queries dict_text 1 [(''select'', 2)] ([traced ''SELECT 1''], None)
       = Failed (unexpected dict_text [(''select'', 2)] [(''select'', 1)] @ queries_header @
           ''/app/main/views.py:145:'' @ [newline] @
           ''            target_user = User.objects.get(email=e)'' @ [newline] @
           ''SELECT 1'' @ [newline, newline])"
proof -
  have "assert_num_queries dict_text 1 [(''select'', 2)] ([traced ''SELECT 1''], None)
          = Failed (unexpected dict_text [(''select'', 2)] [(''select'', 1)] @ queries_header @
              ''/app/main/views.py:145:'' @ [newline] @
              ''            target_user = User.objects.get(email=e)'' @ [newline] @
              ''SELECT 1'' @ [newline, newline])"
    by code_simp
  moreover have "\<not> dict_eq [(''select'', 2)] (count_queries [] [traced ''SELECT 1''])"
    by code_simp
  moreover have "assert_num_queries dict_text 2 [(''select'', 2)] ([traced ''SELECT 1''], None)
          = Raised TypeError"
    by code_simp
  ultimately show ?thesis by blast
qed

text \<open>
  The text before the first space is the leading keyword when the statement begins with
  the keyword and a space follows it.
\<close>

lemma sql_traced: "sql (traced s) = s"
  by (simp add: traced_def capture_stack_def)

lemma isspace_space: "isspace (CHR '' '')"
  by (simp add: isspace_def)

lemma before_first_space_is_keyword:
  assumes "s = kw @ CHR '' '' # rest" and "kw \<noteq> []" and "\<forall>c \<in> set kw. \<not> isspace c"
  shows "before_first_space s = leading_keyword s"
proof -
  have ns: "\<forall>c \<in> set kw. c \<noteq> CHR '' ''"
    using assms(3) isspace_space by auto
  then have a: "takeWhile (\<lambda>c. c \<noteq> CHR '' '') s = kw"
    by (simp add: assms(1) takeWhile_append2)
  obtain c cs where kw: "kw = c # cs" using assms(2) by (cases kw) auto
  then have "\<not> isspace c" using assms(3) by simp
  then have "dropWhile isspace s = s" by (simp add: assms(1) kw)
  moreover have "takeWhile (\<lambda>c. \<not> isspace c) s = kw"
    using assms(3) isspace_space by (simp add: assms(1) takeWhile_append2)
  ultimately show ?thesis by (simp add: before_first_space_def leading_keyword_def a)
qed

text \<open>
  It is not the leading keyword when white space comes first or when the keyword is
  followed by a line break; and the framework logs an \<open>executemany\<close> of two rows as
  \<open>2 times: ...\<close>, which is counted under \<open>2\<close>.
\<close>

lemma classified_otherwise:
  "query_type (traced '' SELECT 1'') = [] \<and> leading_keyword '' SELECT 1'' = ''select''
   \<and> query_type (traced (''SELECT'' @ [newline] @ ''2'')) = ''select'' @ [newline] @ ''2''
   \<and> leading_keyword (''SELECT'' @ [newline] @ ''2'') = ''select''
   \<and> query_type (traced ''2 times: INSERT INTO t VALUES (1)'') = ''2''"
  by code_simp

lemma keyword_histogram_one:
  assumes "leading_keyword s = ''select''"
  shows "keyword_histogram [traced s] = map_of [(''select'', 1)]"
  by (rule ext) (simp add: keyword_histogram_def histogram_by_def sql_traced assms)

text \<open>
  Claim C5, as amended. For every code block that runs to its end and every mapping of
  expected counts: each captured statement is classified by the text before its first
  space, in lower case; statements of type savepoint, release, set or show are left out;
  the assertion passes if and only if the expected mapping is exactly the histogram of the
  remaining types. On a mismatch it fails, at verbosity 0 and 1, with a message that
  starts by listing the expected and the actual counts. When the block raises, its
  exception is what the \<open>with\<close> statement raises, and no counts are compared.
\<close>

theorem assert_num_queries_histogram:
  assumes "distinct (map fst expected_counts)"
  shows "map_of (count_queries [] qs) = histogram qs
       \<and> (assert_num_queries fmt verbose expected_counts (qs, None) = Passed
            \<longleftrightarrow> map_of expected_counts = histogram qs)
       \<and> (map_of expected_counts \<noteq> histogram qs
            \<and> (verbose \<le> 0 \<or> verbose = 1 \<and> (\<forall>q \<in> set qs. \<exists>p s st. q = capture_stack p s st))
            \<longrightarrow> (\<exists>rest. assert_num_queries fmt verbose expected_counts (qs, None) =
                   Failed (''Unexpected queries: expected '' @ fmt expected_counts @ '', got '' @
                           fmt (count_queries [] qs) @ rest)))
       \<and> assert_num_queries fmt verbose expected_counts (qs, Some e) = Raised e"
proof -
  have iff: "assert_num_queries fmt verbose expected_counts (qs, None) = Passed
      \<longleftrightarrow> map_of expected_counts = histogram qs"
    using assms by (rule passes_iff)
  have msg: "\<exists>rest. assert_num_queries fmt verbose expected_counts (qs, None) =
                   Failed (''Unexpected queries: expected '' @ fmt expected_counts @ '', got '' @
                           fmt (count_queries [] qs) @ rest)"
    if ne: "map_of expected_counts \<noteq> histogram qs"
      and v: "verbose \<le> 0 \<or> verbose = 1 \<and> (\<forall>q \<in> set qs. \<exists>p s st. q = capture_stack p s st)"
  proof -
    have "distinct (map fst (count_queries [] qs))"
      by (rule distinct_count_queries) simp
    with assms ne have d: "\<not> dict_eq expected_counts (count_queries [] qs)"
      by (simp add: dict_eq_iff map_of_histogram)
    from v show ?thesis
    proof
      assume "verbose \<le> 0"
      with d show ?thesis
        using mismatch_quiet [of expected_counts qs verbose fmt]
        by (simp add: unexpected_def)
    next
      assume "verbose = 1 \<and> (\<forall>q \<in> set qs. \<exists>p s st. q = capture_stack p s st)"
      with d obtain t where
        "assert_num_queries fmt verbose expected_counts (qs, None) =
           Failed (unexpected fmt expected_counts (count_queries [] qs) @ queries_header @ t)"
        using mismatch_verbose1 [of expected_counts qs verbose fmt] by auto
      then show ?thesis by (simp add: unexpected_def)
    qed
  qed
  have "assert_num_queries fmt verbose expected_counts (qs, Some e) = Raised e"
    by (simp add: assert_num_queries_def)
  with iff msg show ?thesis by (simp add: map_of_histogram)
qed

text \<open>
  An instance: two selects and an update are expected; the block issues them, with a
  savepoint in between, and the assertion passes whatever the order of the expected
  counts. With one select expected it fails with the message.
\<close>

theorem assert_num_queries_histogram_witness:
  "distinct (map fst [(''update'', 1 :: int), (''select'', 2)])
   \<and> assert_num_queries dict_text 0 [(''update'', 1), (''select'', 2)]
        ([traced ''SELECT 1'', traced ''SAVEPOINT s1'', traced ''UPDATE t SET x = 1'',
          traced ''select 2''], None) = Passed
   \<and> map_of [(''update'', 1), (''select'', 2)]
       = histogram [traced ''SELECT 1'', traced ''SAVEPOINT s1'', traced ''UPDATE t SET x = 1'',
                    traced ''select 2'']
   \<and> distinct (map fst [(''select'', 1 :: int)])
   \<and> map_of [(''select'', 1)] \<noteq> histogram [traced ''SELECT 1'', traced ''select 2'']
   \<and> (\<exists>rest. assert_num_queries dict_text 0 [(''select'', 1)]
                 ([traced ''SELECT 1'', traced ''select 2''], None) =
               Failed (''Unexpected queries: expected '' @ dict_text [(''select'', 1)] @ '', got '' @
                       dict_text (count_queries [] [traced ''SELECT 1'', traced ''select 2'']) @ rest))"
proof -
  let ?qs = "[traced ''SELECT 1'', traced ''SAVEPOINT s1'', traced ''UPDATE t SET x = 1'',
              traced ''select 2'']"
  let ?e = "[(''update'', 1 :: int), (''select'', 2)]"
  have d: "distinct (map fst ?e)" by simp
  have p: "assert_num_queries dict_text 0 ?e (?qs, None) = Passed" by code_simp
  note t = assert_num_queries_histogram [OF d, of ?qs dict_text 0 KeyError]
  from t p have h: "map_of ?e = histogram ?qs" by blast
  let ?qs' = "[traced ''SELECT 1'', traced ''select 2'']"
  let ?e' = "[(''select'', 1 :: int)]"
  have d': "distinct (map fst ?e')" by simp
  have n: "assert_num_queries dict_text 0 ?e' (?qs', None) \<noteq> Passed" by code_simp
  note t' = assert_num_queries_histogram [OF d', of ?qs' dict_text 0 KeyError]
  from t' n have ne: "map_of ?e' \<noteq> histogram ?qs'" by blast
  with t' have "\<exists>rest. assert_num_queries dict_text 0 ?e' (?qs', None) =
               Failed (''Unexpected queries: expected '' @ dict_text ?e' @ '', got '' @
                       dict_text (count_queries [] ?qs') @ rest)"
    by simp
  with d p h d' ne show ?thesis by blast
qed

text \<open>
  Claim C5 as stated classifies by the leading keyword and speaks of every code block.
  A select that is written with a space before the keyword is counted under the empty
  type: one select is expected, one is issued, and the assertion does not pass. And a
  block that raises after it has issued exactly the expected statement does not pass
  either: the comparison after \<open>yield\<close> is never reached, and the \<open>with\<close> statement
  raises the block's exception.
\<close>

theorem leading_space_and_raising_block:
  "keyword_histogram [traced '' SELECT 1''] = map_of [(''select'', 1)]
   \<and> assert_num_queries dict_text 0 [(''select'', 1)] ([traced '' SELECT 1''], None) \<noteq> Passed
   \<and> keyword_histogram [traced ''SELECT 1''] = map_of [(''select'', 1)]
   \<and> assert_num_queries dict_text 0 [(''select'', 1)] ([traced ''SELECT 1''], None) = Passed
   \<and> assert_num_queries dict_text 0 [(''select'', 1)]
        ([traced ''SELECT 1''], Some (OtherError ''boom'')) = Raised (OtherError ''boom'')"
proof -
  have k1: "leading_keyword '' SELECT 1'' = ''select''" by code_simp
  have k2: "leading_keyword ''SELECT 1'' = ''select''" by code_simp
  have a: "assert_num_queries dict_text 0 [(''select'', 1)] ([traced '' SELECT 1''], None)
      \<noteq> Passed"
    by code_simp
  have b: "assert_num_queries dict_text 0 [(''select'', 1)] ([traced ''SELECT 1''], None) = Passed"
    by code_simp
  have c: "assert_num_queries dict_text 0 [(''select'', 1)]
        ([traced ''SELECT 1''], Some (OtherError ''boom'')) = Raised (OtherError ''boom'')"
    by (simp add: assert_num_queries_def)
  from keyword_histogram_one [OF k1] keyword_histogram_one [OF k2] a b c show ?thesis by blast
qed

section \<open>Properties of the session-aware test client\<close>

text \<open>
  When the jar had no session cookie before an impersonated call, it has none after it,
  whether the request returns or raises.
\<close>

lemma pop_cookie_cleared:
  "cookies (case pop_cookie k c of Inl e \<Rightarrow> c | Inr c' \<Rightarrow> c') k = None"
  by (simp add: pop_cookie_def split: option.splits)

lemma client_request_cleared:
  assumes "cookies self k = None"
  shows "cookies (snd (client_request k new_session send (Some u) self)) k = None"
proof -
  obtain result self2 where s: "send (force_login k (new_session u) self) = (result, self2)"
    by (cases "send (force_login k (new_session u) self)")
  show ?thesis
    using assms pop_cookie_cleared [where k = k and c = self2]
    by (simp add: client_request_def s Let_def split: sum.splits)
qed

text \<open>
  When the jar had a session cookie, the Morsel written back in \<open>finally\<close> is the object
  the jar held before the call; its value is whatever \<open>force_login\<close> and the request left
  in it, and \<open>force_login\<close> writes the new session key into that very object.
\<close>

lemma client_request_same_morsel:
  assumes "cookies self k = Some m"
  shows "cookies (snd (client_request k new_session send (Some u) self)) k = Some m"
    and "cookie_value (snd (client_request k new_session send (Some u) self)) k =
           Some (morsels (snd (send (force_login k (new_session u) self))) m)"
proof -
  obtain result self2 where s: "send (force_login k (new_session u) self) = (result, self2)"
    by (cases "send (force_login k (new_session u) self)")
  show "cookies (snd (client_request k new_session send (Some u) self)) k = Some m"
    using assms by (simp add: client_request_def s Let_def put_morsel_def)
  show "cookie_value (snd (client_request k new_session send (Some u) self)) k =
           Some (morsels (snd (send (force_login k (new_session u) self))) m)"
    using assms by (simp add: client_request_def s Let_def put_morsel_def cookie_value_def)
qed

lemma force_login_in_place:
  "cookies self k = Some m \<Longrightarrow>
   cookies (force_login k v self) k = Some m \<and> morsels (force_login k v self) m = v"
  by (simp add: force_login_def set_cookie_def)

lemma client_request_raises:
  assumes "fst (send (force_login k (new_session u) self)) = Inl e"
  shows "\<exists>e'. fst (client_request k new_session send (Some u) self) = Inl e'"
proof -
  obtain self2 where s: "send (force_login k (new_session u) self) = (Inl e, self2)"
    using assms by (cases "send (force_login k (new_session u) self)") auto
  show ?thesis
    by (auto simp: client_request_def s Let_def split: option.splits sum.splits)
qed

lemma anonymous_client_cleared:
  "cookie_value anonymous ''sessionid'' = None
   \<and> cookie_value (snd (client_request ''sessionid'' session_2 fails (Some ''user2'') anonymous))
        ''sessionid'' = None
   \<and> cookie_value (snd (client_request ''sessionid'' session_2 answers (Some ''user2'') anonymous))
        ''sessionid'' = None"
  by (simp add: anonymous_def fails_def answers_def session_2_def client_request_def
      force_login_def set_cookie_def pop_cookie_def cookie_value_def)

text \<open>
  Claim C6, at an input where it fails. The client is logged in (its session cookie holds
  \<open>session-1\<close>) and makes a request with \<open>as_user\<close> another user, for whom the login
  issues \<open>session-2\<close>. The request is answered, and afterwards the session cookie holds
  \<open>session-2\<close>: \<open>previous_session\<close> is the jar's own Morsel, which \<open>force_login\<close> has
  overwritten, so writing it back restores nothing.
\<close>

theorem previous_session_not_restored:
  "cookie_value logged_in ''sessionid'' = Some ''session-1''
   \<and> fst (client_request ''sessionid'' session_2 answers (Some ''user2'') logged_in) = Inr 200
   \<and> cookie_value (snd (client_request ''sessionid'' session_2 answers (Some ''user2'') logged_in))
        ''sessionid'' = Some ''session-2''"
  by (simp add: logged_in_def answers_def session_2_def client_request_def force_login_def
      set_cookie_def put_morsel_def cookie_value_def)

text \<open>
  Claim C10, at an input where it fails. The same client and call, but the request raises.
  The exception reaches the caller after the \<open>finally\<close> block has run, and the session
  cookie holds \<open>session-2\<close>, not \<open>session-1\<close>.
\<close>

theorem previous_session_not_restored_on_error:
  "cookie_value logged_in ''sessionid'' = Some ''session-1''
   \<and> fst (client_request ''sessionid'' session_2 fails (Some ''user2'') logged_in)
       = Inl (OtherError ''boom'')
   \<and> cookie_value (snd (client_request ''sessionid'' session_2 fails (Some ''user2'') logged_in))
        ''sessionid'' = Some ''session-2''"
  by (simp add: logged_in_def fails_def session_2_def client_request_def force_login_def
      set_cookie_def put_morsel_def cookie_value_def)

end
